theory Spec2Isabelle
  imports Main "HOL-Library.Word"
begin

section \<open>The banner upload handler of \<^verbatim>\<open>src/pages/api/banner/upload.ts\<close>\<close>

text \<open>
  The handler is one asynchronous function. Its collaborators (the Prisma client, the
  session resolver, the identifier generator, the file system, the HTTP request and
  response objects) are modelled by an explicit state and an environment:
  \<^item> the state holds the three tables the handler reads or writes, the files on disk,
    the response object, the variables captured by the \<^verbatim>\<open>'data'\<close> listener, the trace
    of calls the handler makes to the collaborators, what was written to the console, and
    the exceptions nothing caught;
  \<^item> the environment holds what the collaborators answer: the session, the generated
    identifier, and for every call whether it throws (storage unavailable and the like).
  Every \<^verbatim>\<open>await\<close> runs to completion before the next statement, so the body of the
  function is a sequence of state transformers; an exception carries the state reached.
\<close>

subsection \<open>Data\<close>

type_synonym chunk = "8 word list"

datatype json = JNull | JBool bool | JNumber int | JString string

datatype error = Failure string

text \<open>The two shapes of response body: \<^verbatim>\<open>{ e: string }\<close> and \<^verbatim>\<open>{ url: string }\<close>.\<close>

datatype body = ErrorBody string | UrlBody string

record bannerImage =
  banner_id :: string
  url :: string
  projectId :: string

text \<open>\<^verbatim>\<open>session.user\<close>: the two fields the handler reads.\<close>

record session =
  email :: string
  user_projectId :: string

record request =
  req_method :: string
  content_length :: "string option"
  chunks :: "chunk list"

datatype call =
    FindSetting string
  | GetServerSession
  | FindBanner string
  | DeleteBanner string
  | CreateBanner bannerImage
  | Mkdir string
  | CreateWriteStream string
  | Write string
  | Unlink string

datatype log = Caught error | ErrorDeletingImageFile error

record env =
  fault :: "call \<Rightarrow> error option"
  getServerSession :: "session option"
  createId :: string

type_synonym response = "nat \<times> (string \<times> string) list \<times> body"

record state =
  settings :: "string \<rightharpoonup> json"
  users :: "string \<rightharpoonup> string option"
  banners :: "bannerImage list"
  files :: "string \<rightharpoonup> chunk"
  trace :: "call list"
  console :: "log list"
  statusCode :: nat
  headers :: "(string \<times> string) list"
  sent :: "response option"
  listener :: "string option"
  size_read :: nat
  successful :: bool
  piped :: bool
  destroyed :: bool
  uncaught :: "error list"

text \<open>
  The state a request meets: the tables and the files as they are, a response object
  nothing has been written to, a request stream nobody listens to.
\<close>

definition fresh ::
  "(string \<rightharpoonup> json) \<Rightarrow> (string \<rightharpoonup> string option) \<Rightarrow> bannerImage list \<Rightarrow> (string \<rightharpoonup> chunk) \<Rightarrow> state" where
  "fresh cfg us bs fs =
     \<lparr>settings = cfg, users = us, banners = bs, files = fs, trace = [], console = [],
      statusCode = 200, headers = [], sent = None, listener = None, size_read = 0,
      successful = True, piped = False, destroyed = False, uncaught = []\<rparr>"

subsection \<open>The response object\<close>

definition setHeader :: "string \<Rightarrow> string \<Rightarrow> state \<Rightarrow> state" where
  "setHeader k v s = s\<lparr>headers := headers s @ [(k, v)]\<rparr>"

definition status :: "nat \<Rightarrow> state \<Rightarrow> state" where
  "status c s = s\<lparr>statusCode := c\<rparr>"

text \<open>
  \<^verbatim>\<open>res.json(b)\<close> sends the response with the status code and the headers set so far. It
  sets the content type first, which Node refuses with \<^verbatim>\<open>ERR_HTTP_HEADERS_SENT\<close> once a
  response has been sent: what the client has received is never replaced.
\<close>

definition json :: "body \<Rightarrow> state \<Rightarrow> error + state" where
  "json b s =
     (case sent s of
        None \<Rightarrow> Inr (s\<lparr>sent := Some (statusCode s, headers s, b)\<rparr>)
      | Some r \<Rightarrow> Inl (Failure ''ERR_HTTP_HEADERS_SENT''))"

text \<open>The statement \<^verbatim>\<open>res.status(c).json(b)\<close>: the exception, if any, and the state reached.\<close>

definition send :: "nat \<Rightarrow> body \<Rightarrow> state \<Rightarrow> error option \<times> state" where
  "send c b s =
     (case json b (status c s) of
        Inl e \<Rightarrow> (Some e, status c s)
      | Inr s' \<Rightarrow> (None, s'))"

text \<open>
  An exception no handler catches: thrown out of an event listener, a rejected promise
  nobody awaits, an \<^verbatim>\<open>'error'\<close> event nobody listens to.
\<close>

definition unhandled :: "error \<Rightarrow> state \<Rightarrow> state" where
  "unhandled e s = s\<lparr>uncaught := uncaught s @ [e]\<rparr>"

subsection \<open>The collaborators\<close>

definition called :: "call \<Rightarrow> state \<Rightarrow> state" where
  "called c s = s\<lparr>trace := trace s @ [c]\<rparr>"

text \<open>
  \<^verbatim>\<open>prisma.user.findUnique({ where: { email } }).project().banner()\<close>: the user with that
  email, its project, the banner of that project; null when any of the three is missing.
\<close>

definition currentBanner :: "string \<Rightarrow> state \<Rightarrow> bannerImage option" where
  "currentBanner e s =
     (case users s e of
        None \<Rightarrow> None
      | Some None \<Rightarrow> None
      | Some (Some p) \<Rightarrow> find (\<lambda>b. projectId b = p) (banners s))"

text \<open>\<^verbatim>\<open>prisma.bannerImage.delete({ where: { id } })\<close> throws when no record has that id.\<close>

definition delete_banner :: "string \<Rightarrow> state \<Rightarrow> error + state" where
  "delete_banner i s =
     (if i \<in> banner_id ` set (banners s)
      then Inr (s\<lparr>banners := filter (\<lambda>b. banner_id b \<noteq> i) (banners s)\<rparr>)
      else Inl (Failure ''Record to delete does not exist''))"

text \<open>
  \<^verbatim>\<open>prisma.bannerImage.create\<close> adds the record. The handler deletes a banner by
  \<^verbatim>\<open>where: { id }\<close>, which Prisma accepts for a unique field only: a second record with
  the same \<^verbatim>\<open>id\<close> is refused. Nothing else is refused here; in particular the store
  does not itself keep a project from having two banners.
\<close>

definition create_banner :: "bannerImage \<Rightarrow> state \<Rightarrow> error + state" where
  "create_banner b s =
     (if banner_id b \<in> banner_id ` set (banners s) then
        Inl (Failure ''Unique constraint failed on the fields: (id)'')
      else Inr (s\<lparr>banners := banners s @ [b]\<rparr>))"

text \<open>
  \<^verbatim>\<open>fs.promises.unlink(path)\<close>: the promise is rejected when the file system refuses or the
  file does not exist; otherwise the file is gone. The handler never awaits it.
\<close>

definition unlink :: "env \<Rightarrow> string \<Rightarrow> state \<Rightarrow> error option \<times> state" where
  "unlink env path s =
     (let s1 = called (Unlink path) s in
      case fault env (Unlink path) of
        Some e \<Rightarrow> (Some e, s1)
      | None \<Rightarrow>
          (case files s1 path of
             None \<Rightarrow> (Some (Failure ''ENOENT''), s1)
           | Some c \<Rightarrow> (None, s1\<lparr>files := (files s1)(path := None)\<rparr>)))"

text \<open>
  \<^verbatim>\<open>fs.createWriteStream(path)\<close> returns the stream at once and opens the file for
  writing: created, or truncated. When the file cannot be opened the stream emits
  \<^verbatim>\<open>'error'\<close>; the handler has registered no listener for it, so nothing catches it.
\<close>

definition createWriteStream :: "env \<Rightarrow> string \<Rightarrow> state \<Rightarrow> state" where
  "createWriteStream env path s =
     (let s1 = called (CreateWriteStream path) s in
      case fault env (CreateWriteStream path) of
        Some e \<Rightarrow> unhandled e s1
      | None \<Rightarrow> s1\<lparr>files := (files s1)(path \<mapsto> [])\<rparr>)"

text \<open>
  A chunk piped into the stream is appended to the file, if the stream has opened it and
  the file is still there. A write that fails makes the stream emit \<^verbatim>\<open>'error'\<close>, which
  ends the pipe and which nothing catches either.
\<close>

definition write_chunk :: "env \<Rightarrow> string \<Rightarrow> chunk \<Rightarrow> state \<Rightarrow> state" where
  "write_chunk env path d s =
     (case fault env (CreateWriteStream path) of
        Some e \<Rightarrow> s
      | None \<Rightarrow>
          (case files s path of
             None \<Rightarrow> s
           | Some c \<Rightarrow>
               (case fault env (Write path) of
                  Some e \<Rightarrow> unhandled e (s\<lparr>piped := False\<rparr>)
                | None \<Rightarrow> s\<lparr>files := (files s)(path \<mapsto> c @ d)\<rparr>)))"

subsection \<open>The declared size\<close>

definition maxSize :: nat where
  "maxSize = 5000000"

text \<open>
  \<^verbatim>\<open>reportedSize > maxSize\<close> compares the header, a string, with a number: the string is
  converted to a number first. Node's HTTP parser lets only strings of decimal digits
  through as a content length; any other string is read as NaN here, which no
  comparison holds for. The empty string converts to \<open>0\<close>.
\<close>

definition digit :: "char \<Rightarrow> nat option" where
  "digit c =
     (let n = (of_char c :: nat) in if 48 \<le> n \<and> n \<le> 57 then Some (n - 48) else None)"

fun digits :: "nat \<Rightarrow> string \<Rightarrow> nat option" where
  "digits acc [] = Some acc"
| "digits acc (c # cs) =
     (case digit c of None \<Rightarrow> None | Some d \<Rightarrow> digits (10 * acc + d) cs)"

definition toNumber :: "string \<Rightarrow> nat option" where
  "toNumber str = digits 0 str"

text \<open>\<^verbatim>\<open>req.headers['content-length'] ?? 0\<close>, then the comparison.\<close>

definition reportedSize :: "request \<Rightarrow> nat option" where
  "reportedSize req = (case content_length req of None \<Rightarrow> Some 0 | Some str \<Rightarrow> toNumber str)"

definition too_large :: "request \<Rightarrow> bool" where
  "too_large req = (case reportedSize req of None \<Rightarrow> False | Some n \<Rightarrow> n > maxSize)"

subsection \<open>The handler\<close>

definition image_url :: "string \<Rightarrow> string" where
  "image_url i = ''/api/res/images/'' @ i"

definition upload_path :: "string \<Rightarrow> string" where
  "upload_path i = ''./data/uploads/'' @ i @ ''.jpg''"

text \<open>
  Lines 66 to 99: the new record, the directory, the write stream, the listener, the
  answer. The listener is only registered here: no chunk is delivered before the function
  has run to its end, so \<^verbatim>\<open>successful\<close> is read as it was initialised.
\<close>

definition new_banner :: "env \<Rightarrow> session \<Rightarrow> bannerImage" where
  "new_banner env sess =
     \<lparr>banner_id = createId env, url = image_url (createId env),
      projectId = user_projectId sess\<rparr>"

definition store_upload :: "env \<Rightarrow> session \<Rightarrow> state \<Rightarrow> error option \<times> state" where
  "store_upload env sess s =
     (let i = createId env;
          b = new_banner env sess;
          s1 = called (CreateBanner b) s in
      case fault env (CreateBanner b) of
        Some e \<Rightarrow> (Some e, s1)
      | None \<Rightarrow>
          (case create_banner b s1 of
             Inl e \<Rightarrow> (Some e, s1)
           | Inr s2 \<Rightarrow>
               (let filename = upload_path i;
                    s3 = called (Mkdir ''./data/uploads'') s2 in
                case fault env (Mkdir ''./data/uploads'') of
                  Some e \<Rightarrow> (Some e, s3)
                | None \<Rightarrow>
                    (let s4 = createWriteStream env filename s3;
                         s5 = s4\<lparr>listener := Some filename, size_read := 0,
                                 successful := True, piped := True\<rparr> in
                     if successful s5 then send 200 (UrlBody (image_url i)) s5
                     else (None, s5)))))"

text \<open>
  Lines 45 to 64: the banner the caller's project has now is deleted, record and file. A
  failure to delete the file is written to the console and goes no further.
\<close>

definition remove_current :: "env \<Rightarrow> session \<Rightarrow> state \<Rightarrow> error option \<times> state" where
  "remove_current env sess s =
     (let s1 = called (FindBanner (email sess)) s in
      case fault env (FindBanner (email sess)) of
        Some e \<Rightarrow> (Some e, s1)
      | None \<Rightarrow>
          (case currentBanner (email sess) s1 of
             None \<Rightarrow> (None, s1)
           | Some cb \<Rightarrow>
               (let s2 = called (DeleteBanner (banner_id cb)) s1 in
                case fault env (DeleteBanner (banner_id cb)) of
                  Some e \<Rightarrow> (Some e, s2)
                | None \<Rightarrow>
                    (case delete_banner (banner_id cb) s2 of
                       Inl e \<Rightarrow> (Some e, s2)
                     | Inr s3 \<Rightarrow>
                         (case unlink env (upload_path (banner_id cb)) s3 of
                            (None, s4) \<Rightarrow> (None, s4)
                          | (Some e, s4) \<Rightarrow>
                              (None, s4\<lparr>console := console s4 @ [ErrorDeletingImageFile e]\<rparr>))))))"

text \<open>Lines 45 to 99: what the handler does for an authenticated caller.\<close>

definition upload :: "env \<Rightarrow> session \<Rightarrow> state \<Rightarrow> error option \<times> state" where
  "upload env sess s =
     (case remove_current env sess s of
        (Some e, s') \<Rightarrow> (Some e, s')
      | (None, s') \<Rightarrow> store_upload env sess s')"

text \<open>Lines 21 to 100: the body of the \<^verbatim>\<open>try\<close> block.\<close>

definition handler_try :: "env \<Rightarrow> request \<Rightarrow> state \<Rightarrow> error option \<times> state" where
  "handler_try env req s =
     (let s1 = called (FindSetting ''forbidEditing'') s in
      case fault env (FindSetting ''forbidEditing'') of
        Some e \<Rightarrow> (Some e, s1)
      | None \<Rightarrow>
          if settings s1 ''forbidEditing'' = Some (JBool True) then
            send 400 (ErrorBody ''Bad Request: Project editing is not currently allowed'') s1
          else if too_large req then
            send 413 (ErrorBody ''Resource size exceeds limit (5MB)'') s1
          else
            (let s2 = called GetServerSession s1 in
             case fault env GetServerSession of
               Some e \<Rightarrow> (Some e, s2)
             | None \<Rightarrow>
                 (case getServerSession env of
                    None \<Rightarrow> send 401 (ErrorBody ''Unauthorized'') s2
                  | Some sess \<Rightarrow> upload env sess s2)))"

text \<open>
  The whole function. An exception thrown outside the \<^verbatim>\<open>try\<close> block, or by the
  \<^verbatim>\<open>catch\<close> block itself, rejects the promise the function returns.
\<close>

definition handler :: "env \<Rightarrow> request \<Rightarrow> state \<Rightarrow> state" where
  "handler env req s =
     (if req_method req \<noteq> ''POST'' then
        (case send 405 (ErrorBody ''Method Not Allowed'') (setHeader ''Allow'' ''POST'' s) of
           (None, s') \<Rightarrow> s'
         | (Some e, s') \<Rightarrow> unhandled e s')
      else
        (case handler_try env req s of
           (None, s') \<Rightarrow> s'
         | (Some e, s') \<Rightarrow>
             (case send 500 (ErrorBody ''Internal Server Error'')
                     (s'\<lparr>console := console s' @ [Caught e]\<rparr>) of
                (None, s'') \<Rightarrow> s''
              | (Some e', s'') \<Rightarrow> unhandled e' s'')))"

subsection \<open>The stream\<close>

text \<open>
  Lines 82 to 94: one \<^verbatim>\<open>'data'\<close> event. The handler's listener runs first, then the pipe
  forwards the chunk to the file. A destroyed request emits no further chunk; a request
  nobody listens to stays paused.

  When the guard fires, the request is destroyed and unpiped and the deletion of the
  partial file is started; nobody awaits it, so its failure is caught by nothing. Then
  comes \<^verbatim>\<open>res.status(413).json(...)\<close>: if it throws, the exception leaves the listener,
  line 92 is not reached and the chunk is not forwarded.
\<close>

definition on_data :: "env \<Rightarrow> chunk \<Rightarrow> state \<Rightarrow> state" where
  "on_data env d s =
     (case listener s of
        None \<Rightarrow> s
      | Some filename \<Rightarrow>
          if destroyed s then s
          else
            (let s1 = s\<lparr>size_read := size_read s + length d\<rparr> in
             if size_read s1 > maxSize then
               (let a = s1\<lparr>destroyed := True\<rparr>;
                    b = a\<lparr>piped := False\<rparr> in
                case unlink env filename b of
                  (rejected, c) \<Rightarrow>
                    (let r = (case send 413 (ErrorBody ''Resource size exceeds limit (5MB)'') c of
                                (Some e, c') \<Rightarrow> unhandled e c'
                              | (None, c') \<Rightarrow> c'\<lparr>successful := False\<rparr>)
                     in case rejected of
                          None \<Rightarrow> r
                        | Some e \<Rightarrow> unhandled e r))
             else if piped s1 then write_chunk env filename d s1
             else s1))"

text \<open>A request from its arrival to the end of its body.\<close>

definition run :: "env \<Rightarrow> request \<Rightarrow> state \<Rightarrow> state" where
  "run env req s = fold (on_data env) (chunks req) (handler env req s)"

subsection \<open>What is observed\<close>

text \<open>The status code of the response the client has received, if any.\<close>

definition response_status :: "state \<Rightarrow> nat option" where
  "response_status s = map_option fst (sent s)"

text \<open>The calls that change the table of banner images.\<close>

fun mutation :: "call \<Rightarrow> bool" where
  "mutation (DeleteBanner i) = True"
| "mutation (CreateBanner b) = True"
| "mutation c = False"

text \<open>The records left once the banner found for the caller is deleted.\<close>

definition remaining :: "string \<Rightarrow> state \<Rightarrow> bannerImage list" where
  "remaining e s =
     (case currentBanner e s of
        None \<Rightarrow> banners s
      | Some cb \<Rightarrow> filter (\<lambda>b. banner_id b \<noteq> banner_id cb) (banners s))"



subsection \<open>Concrete requests, used to run the model\<close>

definition ada :: session where
  "ada = \<lparr>email = ''ada@example.org'', user_projectId = ''p1''\<rparr>"

definition env_ada :: env where
  "env_ada = \<lparr>fault = (\<lambda>c. None), getServerSession = Some ada, createId = ''c2''\<rparr>"

definition env_anonymous :: env where
  "env_anonymous = \<lparr>fault = (\<lambda>c. None), getServerSession = None, createId = ''c2''\<rparr>"

definition env_db_down :: env where
  "env_db_down =
     \<lparr>fault = (\<lambda>c. case c of
                     FindBanner e \<Rightarrow> Some (Failure ''Can not reach database server at db:5432'')
                   | _ \<Rightarrow> None),
      getServerSession = Some ada, createId = ''c2''\<rparr>"

definition env_collision :: env where
  "env_collision = \<lparr>fault = (\<lambda>c. None), getServerSession = Some ada, createId = ''c1''\<rparr>"

definition users1 :: "string \<rightharpoonup> string option" where
  "users1 = [''ada@example.org'' \<mapsto> Some ''p1'']"

definition users2 :: "string \<rightharpoonup> string option" where
  "users2 = [''ada@example.org'' \<mapsto> Some ''p2'']"

definition banner3 :: bannerImage where
  "banner3 = \<lparr>banner_id = ''c3'', url = ''/api/res/images/c3'', projectId = ''p2''\<rparr>"

definition banner1 :: bannerImage where
  "banner1 = \<lparr>banner_id = ''c1'', url = ''/api/res/images/c1'', projectId = ''p1''\<rparr>"

definition files1 :: "string \<rightharpoonup> chunk" where
  "files1 = [''./data/uploads/c1.jpg'' \<mapsto> [255, 216, 255]]"

definition locked :: "string \<rightharpoonup> json" where
  "locked = [''forbidEditing'' \<mapsto> JBool True]"

definition post :: "string option \<Rightarrow> chunk list \<Rightarrow> request" where
  "post len cs = \<lparr>req_method = ''POST'', content_length = len, chunks = cs\<rparr>"

definition get :: request where
  "get = \<lparr>req_method = ''GET'', content_length = None, chunks = []\<rparr>"

text \<open>A body whose first two chunks count 5,000,001 bytes, and a third chunk behind them.\<close>

definition oversized :: request where
  "oversized = post None [replicate 4000000 0, replicate 1000001 0, [1, 2, 3]]"

section \<open>Properties\<close>

subsection \<open>Unfolding\<close>

lemmas res_defs = setHeader_def status_def json_def send_def unhandled_def called_def
lemmas io_defs = unlink_def createWriteStream_def write_chunk_def delete_banner_def create_banner_def
lemmas stage_defs = handler_def handler_try_def upload_def remove_current_def store_upload_def
lemmas data_defs = ada_def env_ada_def env_anonymous_def env_db_down_def env_collision_def
  users1_def users2_def banner1_def banner3_def files1_def locked_def post_def get_def oversized_def
lemmas run_defs = run_def stage_defs res_defs io_defs fresh_def Let_def too_large_def
  reportedSize_def maxSize_def on_data_def currentBanner_def new_banner_def image_url_def
  upload_path_def

subsection \<open>The stream\<close>

lemma on_data_no_listener: "listener s = None \<Longrightarrow> on_data env d s = s"
  by (simp add: on_data_def)

lemma fold_no_listener: "listener s = None \<Longrightarrow> fold (on_data env) ds s = s"
  by (induction ds) (simp_all add: on_data_no_listener)

lemma on_data_destroyed: "destroyed s \<Longrightarrow> on_data env d s = s"
  by (simp add: on_data_def split: option.splits)

lemma fold_destroyed: "destroyed s \<Longrightarrow> fold (on_data env) ds s = s"
  by (induction ds) (simp_all add: on_data_destroyed)

lemma on_data_banners: "banners (on_data env d s) = banners s"
  by (simp add: on_data_def res_defs io_defs Let_def split: option.splits prod.splits sum.splits)

lemma fold_banners: "banners (fold (on_data env) ds s) = banners s"
  by (induction ds arbitrary: s) (simp_all add: on_data_banners)

lemma on_data_sent: "sent s = Some r \<Longrightarrow> sent (on_data env d s) = Some r"
  by (simp add: on_data_def res_defs io_defs Let_def split: option.splits prod.splits sum.splits)

lemma fold_sent: "sent s = Some r \<Longrightarrow> sent (fold (on_data env) ds s) = Some r"
  by (induction ds arbitrary: s) (simp_all add: on_data_sent)

lemma on_data_listener: "listener (on_data env d s) = listener s"
  by (simp add: on_data_def res_defs io_defs Let_def split: option.splits prod.splits sum.splits)





text \<open>The step at which the guard fires.\<close>

lemma on_data_fires:
  assumes "\<not> destroyed s" and "destroyed (on_data env d s)"
  shows "\<exists>f. listener s = Some f \<and> Unlink f \<in> set (trace (on_data env d s)) \<and>
             (fault env (Unlink f) = None \<longrightarrow> files (on_data env d s) f = None)"
  using assms
  by (auto simp: on_data_def res_defs io_defs Let_def
      split: option.splits if_splits prod.splits sum.splits)

lemma fold_fires:
  assumes "\<not> destroyed s" and "destroyed (fold (on_data env) ds s)"
  shows "\<exists>f. listener s = Some f \<and> Unlink f \<in> set (trace (fold (on_data env) ds s)) \<and>
             (fault env (Unlink f) = None \<longrightarrow> files (fold (on_data env) ds s) f = None)"
  using assms
proof (induction ds arbitrary: s)
  case Nil
  then show ?case by simp
next
  case (Cons d ds)
  show ?case
  proof (cases "destroyed (on_data env d s)")
    case True
    then have "fold (on_data env) (d # ds) s = on_data env d s"
      by (simp add: fold_destroyed)
    with on_data_fires [OF Cons.prems(1) True] show ?thesis by simp
  next
    case False
    from Cons.prems(2) have "destroyed (fold (on_data env) ds (on_data env d s))" by simp
    from Cons.IH [OF False this] show ?thesis by (simp add: on_data_listener)
  qed
qed

lemma on_data_listening:
  assumes "listener s = Some f" and "\<not> destroyed s"
  shows "destroyed (on_data env d s) = (maxSize < size_read s + length d) \<and>
         (\<not> destroyed (on_data env d s) \<longrightarrow> size_read (on_data env d s) = size_read s + length d)"
  using assms
  by (simp add: on_data_def res_defs io_defs Let_def split: option.splits prod.splits sum.splits)

lemma fold_guard:
  assumes "listener s = Some f" and "\<not> destroyed s" and "size_read s \<le> maxSize"
  shows "destroyed (fold (on_data env) ds s) = (maxSize < size_read s + sum_list (map length ds))"
  using assms
proof (induction ds arbitrary: s)
  case Nil
  then show ?case by simp
next
  case (Cons d ds)
  note step = on_data_listening [OF Cons.prems(1,2), of env d]
  show ?case
  proof (cases "destroyed (on_data env d s)")
    case True
    with step have "maxSize < size_read s + length d" by simp
    with True show ?thesis by (simp add: fold_destroyed)
  next
    case False
    with step have sz: "size_read (on_data env d s) = size_read s + length d" by simp
    from Cons.prems(1) have l: "listener (on_data env d s) = Some f" by (simp add: on_data_listener)
    from step False sz have "size_read (on_data env d s) \<le> maxSize" by simp
    from Cons.IH [OF l False this] sz show ?thesis by (simp add: add.assoc)
  qed
qed

subsection \<open>The stages, from any state\<close>

lemma store_upload_ok:
  assumes "store_upload env sess s = (None, s')" and "sent s = None"
  shows "banners s' = banners s @ [new_banner env sess] \<and>
         createId env \<notin> banner_id ` set (banners s) \<and>
         listener s' = Some (upload_path (createId env)) \<and>
         sent s' = Some (200, headers s, UrlBody (image_url (createId env))) \<and>
         set (trace s) \<subseteq> set (trace s') \<and>
         destroyed s' = destroyed s \<and> size_read s' = 0"
  using assms
  by (auto simp: store_upload_def res_defs io_defs new_banner_def Let_def
      split: option.splits sum.splits if_splits)

lemma store_upload_error:
  assumes "store_upload env sess s = (Some e, s')" and "sent s = None"
  shows "sent s' = None \<and> listener s' = listener s \<and> headers s' = headers s \<and>
         console s' = console s \<and> destroyed s' = destroyed s \<and> uncaught s' = uncaught s"
  using assms
  by (auto simp: store_upload_def res_defs io_defs Let_def
      split: option.splits sum.splits if_splits)


lemma remove_current_frame:
  assumes "remove_current env sess s = (r, s')"
  shows "sent s' = sent s \<and> listener s' = listener s \<and> headers s' = headers s \<and>
         destroyed s' = destroyed s \<and> uncaught s' = uncaught s \<and>
         set (trace s) \<subseteq> set (trace s')"
  using assms
  by (auto simp: remove_current_def res_defs io_defs Let_def
      split: option.splits sum.splits if_splits)

lemma currentBanner_trace [simp]: "currentBanner e (s\<lparr>trace := t\<rparr>) = currentBanner e s"
  by (simp add: currentBanner_def split: option.splits)

lemma remove_current_ok:
  assumes "remove_current env sess s = (None, s')"
  shows "banners s' = remaining (email sess) s \<and>
         (\<forall>cb. currentBanner (email sess) s = Some cb \<longrightarrow>
               Unlink (upload_path (banner_id cb)) \<in> set (trace s')) \<and>
         filter mutation (trace s') = filter mutation (trace s) @
           (case currentBanner (email sess) s of
              None \<Rightarrow> []
            | Some cb \<Rightarrow> [DeleteBanner (banner_id cb)])"
  using assms
  by (auto simp: remove_current_def remaining_def res_defs io_defs Let_def
      split: option.splits sum.splits if_splits)


lemma upload_error:
  assumes "upload env sess s = (Some e, s')" and "sent s = None"
  shows "sent s' = None \<and> listener s' = listener s \<and> headers s' = headers s \<and>
         destroyed s' = destroyed s \<and> uncaught s' = uncaught s"
proof (cases "remove_current env sess s")
  case (Pair r s0)
  note f = remove_current_frame [OF Pair]
  show ?thesis
  proof (cases r)
    case None
    with Pair assms have su: "store_upload env sess s0 = (Some e, s')" by (simp add: upload_def)
    from f assms(2) have "sent s0 = None" by simp
    from store_upload_error [OF su this] f show ?thesis by simp
  next
    case (Some e')
    with Pair assms have "s' = s0" by (simp add: upload_def)
    with f assms(2) show ?thesis by simp
  qed
qed

lemma upload_ok:
  assumes "upload env sess s = (None, s')" and "sent s = None"
  shows "banners s' = remaining (email sess) s @ [new_banner env sess] \<and>
         createId env \<notin> banner_id ` set (remaining (email sess) s) \<and>
         listener s' = Some (upload_path (createId env)) \<and>
         sent s' = Some (200, headers s, UrlBody (image_url (createId env))) \<and>
         (\<forall>cb. currentBanner (email sess) s = Some cb \<longrightarrow>
               Unlink (upload_path (banner_id cb)) \<in> set (trace s')) \<and>
         destroyed s' = destroyed s \<and> size_read s' = 0"
proof (cases "remove_current env sess s")
  case (Pair r s0)
  with assms have r: "r = None" and su: "store_upload env sess s0 = (None, s')"
    by (auto simp: upload_def split: option.splits)
  from Pair r have rc: "remove_current env sess s = (None, s0)" by simp
  note f = remove_current_frame [OF rc]
  from f assms(2) have "sent s0 = None" by simp
  from store_upload_ok [OF su this] remove_current_ok [OF rc] f
  show ?thesis by auto
qed

subsection \<open>The handler, from a fresh state\<close>

lemma fresh_fields [simp]:
  "settings (fresh cfg us bs fs) = cfg" "users (fresh cfg us bs fs) = us"
  "banners (fresh cfg us bs fs) = bs" "files (fresh cfg us bs fs) = fs"
  "trace (fresh cfg us bs fs) = []" "console (fresh cfg us bs fs) = []"
  "statusCode (fresh cfg us bs fs) = 200" "headers (fresh cfg us bs fs) = []"
  "sent (fresh cfg us bs fs) = None" "listener (fresh cfg us bs fs) = None"
  "size_read (fresh cfg us bs fs) = 0" "successful (fresh cfg us bs fs)"
  "\<not> piped (fresh cfg us bs fs)" "\<not> destroyed (fresh cfg us bs fs)"
  "uncaught (fresh cfg us bs fs) = []"
  by (simp_all add: fresh_def)

lemma upload_error_fresh:
  assumes "upload env sess ((fresh cfg us bs fs)\<lparr>trace := t\<rparr>) = (Some e, s')"
  shows "sent s' = None \<and> listener s' = None \<and> headers s' = [] \<and> \<not> destroyed s' \<and>
         uncaught s' = []"
  using upload_error [OF assms] by simp

text \<open>
  The handler either ends without a listener on the request and with an answer other than
  200, or is the upload of an authenticated caller run to its end, started after the
  lookup of the setting and the call to the Session Resolver.
\<close>

lemma handler_outcome:
  "(listener (handler env req (fresh cfg us bs fs)) = None \<and>
    response_status (handler env req (fresh cfg us bs fs)) \<noteq> Some 200 \<and>
    \<not> destroyed (handler env req (fresh cfg us bs fs))) \<or>
   (\<exists>sess. getServerSession env = Some sess \<and>
      upload env sess ((fresh cfg us bs fs)\<lparr>trace := [FindSetting ''forbidEditing'', GetServerSession]\<rparr>)
        = (None, handler env req (fresh cfg us bs fs)))"
  by (auto simp: handler_def handler_try_def res_defs Let_def response_status_def
      split: option.splits prod.splits dest!: upload_error_fresh)


subsection \<open>The method check\<close>

text \<open>
  C8. For every request whose method is not \<^verbatim>\<open>POST\<close>, the handler answers 405 with the
  header \<^verbatim>\<open>Allow: POST\<close> and does nothing else: the final state is the one the request
  met, but for the response. No collaborator is called, no table and no file changes, and
  the body of the request is never read.
\<close>

theorem method_not_allowed:
  assumes "req_method req \<noteq> ''POST''"
  shows "run env req (fresh cfg us bs fs) =
    (fresh cfg us bs fs)\<lparr>statusCode := 405, headers := [(''Allow'', ''POST'')],
       sent := Some (405, [(''Allow'', ''POST'')], ErrorBody ''Method Not Allowed'')\<rparr>"
  using assms by (simp add: run_def handler_def res_defs fresh_def fold_no_listener)

theorem method_not_allowed_witness:
  "req_method get \<noteq> ''POST'' \<and>
   run env_ada get (fresh locked users1 [banner1] files1) =
    (fresh locked users1 [banner1] files1)\<lparr>statusCode := 405, headers := [(''Allow'', ''POST'')],
       sent := Some (405, [(''Allow'', ''POST'')], ErrorBody ''Method Not Allowed'')\<rparr>"
proof -
  have h: "req_method get \<noteq> ''POST''" by (simp add: get_def)
  from method_not_allowed [OF h, of env_ada locked users1 "[banner1]" files1] h
  show ?thesis by simp
qed

subsection \<open>The edit lock\<close>

text \<open>
  C7. For every \<^verbatim>\<open>POST\<close> request for which the Config Store answers that
  \<^verbatim>\<open>forbidEditing\<close> is true, the handler answers 400 whatever the headers and the body,
  and nothing else happens: the only call made is the lookup of the setting, no table and
  no file changes, and the body of the request is never read.
\<close>

theorem editing_forbidden:
  assumes "req_method req = ''POST''"
    and "fault env (FindSetting ''forbidEditing'') = None"
    and "cfg ''forbidEditing'' = Some (JBool True)"
  shows "run env req (fresh cfg us bs fs) =
    (fresh cfg us bs fs)\<lparr>trace := [FindSetting ''forbidEditing''], statusCode := 400,
       sent := Some (400, [], ErrorBody ''Bad Request: Project editing is not currently allowed'')\<rparr>"
  using assms
  by (simp add: run_def handler_def handler_try_def res_defs fresh_def fold_no_listener)

theorem editing_forbidden_witness:
  "req_method (post (Some ''3'') [[1, 2, 3]]) = ''POST'' \<and>
   fault env_ada (FindSetting ''forbidEditing'') = None \<and>
   locked ''forbidEditing'' = Some (JBool True) \<and>
   run env_ada (post (Some ''3'') [[1, 2, 3]]) (fresh locked users1 [banner1] files1) =
    (fresh locked users1 [banner1] files1)\<lparr>trace := [FindSetting ''forbidEditing''],
       statusCode := 400,
       sent := Some (400, [], ErrorBody ''Bad Request: Project editing is not currently allowed'')\<rparr>"
proof -
  have h1: "req_method (post (Some ''3'') [[1, 2, 3]]) = ''POST''" by (simp add: post_def)
  have h2: "fault env_ada (FindSetting ''forbidEditing'') = None" by (simp add: env_ada_def)
  have h3: "locked ''forbidEditing'' = Some (JBool True)" by (simp add: locked_def)
  from editing_forbidden [where req = "post (Some ''3'') [[1, 2, 3]]" and env = env_ada
      and cfg = locked and us = users1 and bs = "[banner1]" and fs = files1, OF h1 h2 h3] h1 h2 h3
  show ?thesis by simp
qed

text \<open>
  The restriction to \<^verbatim>\<open>POST\<close> is needed: the method is checked before the setting is
  read, so a \<^verbatim>\<open>GET\<close> request is answered 405 while editing is forbidden.
\<close>

theorem editing_forbidden_counterexample:
  "settings (fresh locked users1 [banner1] files1) ''forbidEditing'' = Some (JBool True) \<and>
   response_status (run env_ada get (fresh locked users1 [banner1] files1)) = Some 405"
  by (simp add: run_def handler_def res_defs fresh_def response_status_def data_defs)

subsection \<open>The declared size\<close>

text \<open>
  C4. For every \<^verbatim>\<open>POST\<close> request that passes the edit lock (the lookup of the setting
  does not throw and does not answer true) and whose declared content length exceeds
  5,000,000, the handler answers 413 and writes no file. The only call made is the lookup
  of the setting: neither the Session Resolver nor the Record Store's banner lookup is
  consulted.
\<close>

theorem declared_too_large:
  assumes "req_method req = ''POST''"
    and "fault env (FindSetting ''forbidEditing'') = None"
    and "cfg ''forbidEditing'' \<noteq> Some (JBool True)"
    and "content_length req = Some str" and "toNumber str = Some n" and "5000000 < n"
  shows "run env req (fresh cfg us bs fs) =
    (fresh cfg us bs fs)\<lparr>trace := [FindSetting ''forbidEditing''], statusCode := 413,
       sent := Some (413, [], ErrorBody ''Resource size exceeds limit (5MB)'')\<rparr>"
  using assms
  by (simp add: run_def handler_def handler_try_def res_defs fresh_def fold_no_listener
      too_large_def reportedSize_def maxSize_def)

theorem declared_too_large_witness:
  "req_method (post (Some ''5000001'') [[1, 2, 3]]) = ''POST'' \<and>
   fault env_anonymous (FindSetting ''forbidEditing'') = None \<and>
   Map.empty ''forbidEditing'' \<noteq> Some (JBool True) \<and>
   content_length (post (Some ''5000001'') [[1, 2, 3]]) = Some ''5000001'' \<and>
   toNumber ''5000001'' = Some 5000001 \<and> (5000000 :: nat) < 5000001 \<and>
   run env_anonymous (post (Some ''5000001'') [[1, 2, 3]]) (fresh Map.empty users1 [banner1] files1) =
    (fresh Map.empty users1 [banner1] files1)\<lparr>trace := [FindSetting ''forbidEditing''],
       statusCode := 413,
       sent := Some (413, [], ErrorBody ''Resource size exceeds limit (5MB)'')\<rparr>"
proof -
  have h1: "req_method (post (Some ''5000001'') [[1, 2, 3]]) = ''POST''" by (simp add: post_def)
  have h2: "fault env_anonymous (FindSetting ''forbidEditing'') = None"
    by (simp add: env_anonymous_def)
  have h3: "Map.empty ''forbidEditing'' \<noteq> Some (JBool True)" by simp
  have h4: "content_length (post (Some ''5000001'') [[1, 2, 3]]) = Some ''5000001''"
    by (simp add: post_def)
  have h5: "toNumber ''5000001'' = Some 5000001" by (simp add: toNumber_def digit_def)
  have h6: "(5000000 :: nat) < 5000001" by simp
  from declared_too_large [where req = "post (Some ''5000001'') [[1, 2, 3]]" and env = env_anonymous
      and cfg = Map.empty and us = users1 and bs = "[banner1]" and fs = files1,
      OF h1 h2 h3 h4 h5 h6] h1 h2 h3 h4 h5 h6
  show ?thesis by simp
qed

text \<open>
  The edit lock comes first: with editing forbidden, a request that declares 6,000,000
  bytes is answered 400.
\<close>

theorem declared_too_large_counterexample:
  "content_length (post (Some ''6000000'') []) = Some ''6000000'' \<and>
   toNumber ''6000000'' = Some 6000000 \<and>
   response_status (run env_ada (post (Some ''6000000'') []) (fresh locked users1 [banner1] files1))
     = Some 400"
  by (simp add: run_def handler_def handler_try_def res_defs fresh_def response_status_def
      data_defs toNumber_def digit_def)

subsection \<open>The session\<close>

text \<open>
  C5. For every request that lacks a valid session, the handler changes no record and
  writes no file, and calls nothing but the lookup of the setting and the Session
  Resolver. It answers 401 when the request is a \<^verbatim>\<open>POST\<close>, passes the edit lock, does not
  declare more than 5,000,000 bytes, and neither of the two calls throws.
\<close>

theorem unauthenticated:
  assumes "getServerSession env = None"
  shows "banners (run env req (fresh cfg us bs fs)) = bs \<and>
         files (run env req (fresh cfg us bs fs)) = fs \<and>
         set (trace (run env req (fresh cfg us bs fs)))
           \<subseteq> {FindSetting ''forbidEditing'', GetServerSession} \<and>
         (req_method req = ''POST'' \<and> fault env (FindSetting ''forbidEditing'') = None \<and>
          cfg ''forbidEditing'' \<noteq> Some (JBool True) \<and> \<not> too_large req \<and>
          fault env GetServerSession = None
          \<longrightarrow> sent (run env req (fresh cfg us bs fs)) = Some (401, [], ErrorBody ''Unauthorized''))"
proof -
  have "listener (handler env req (fresh cfg us bs fs)) = None"
    using assms
    by (simp add: handler_def handler_try_def res_defs fresh_def Let_def split: option.splits)
  then have r: "run env req (fresh cfg us bs fs) = handler env req (fresh cfg us bs fs)"
    by (simp add: run_def fold_no_listener)
  show ?thesis
    unfolding r using assms
    by (simp add: handler_def handler_try_def res_defs fresh_def Let_def split: option.splits)
qed

theorem unauthenticated_witness:
  "getServerSession env_anonymous = None \<and>
   banners (run env_anonymous (post None [[1, 2, 3]]) (fresh Map.empty users1 [banner1] files1)) = [banner1] \<and>
   files (run env_anonymous (post None [[1, 2, 3]]) (fresh Map.empty users1 [banner1] files1)) = files1 \<and>
   sent (run env_anonymous (post None [[1, 2, 3]]) (fresh Map.empty users1 [banner1] files1))
     = Some (401, [], ErrorBody ''Unauthorized'')"
proof -
  have h: "getServerSession env_anonymous = None" by (simp add: env_anonymous_def)
  have g: "req_method (post None [[1, 2, 3]]) = ''POST'' \<and>
           fault env_anonymous (FindSetting ''forbidEditing'') = None \<and>
           Map.empty ''forbidEditing'' \<noteq> Some (JBool True) \<and> \<not> too_large (post None [[1, 2, 3]]) \<and>
           fault env_anonymous GetServerSession = None"
    by (simp add: post_def env_anonymous_def too_large_def reportedSize_def)
  from unauthenticated [OF h, of "post None [[1, 2, 3]]" Map.empty users1 "[banner1]" files1] h g
  show ?thesis by simp
qed

text \<open>
  The earlier checks come first: without a session, a request that declares 6,000,000
  bytes is answered 413.
\<close>

theorem unauthenticated_counterexample:
  "getServerSession env_anonymous = None \<and>
   response_status (run env_anonymous (post (Some ''6000000'') []) (fresh Map.empty users1 [banner1] files1))
     = Some 413"
  by (simp add: run_def handler_def handler_try_def res_defs fresh_def response_status_def
      data_defs toNumber_def digit_def too_large_def reportedSize_def maxSize_def)

lemma run_sent: "sent (run env req (fresh cfg us bs fs)) = sent (handler env req (fresh cfg us bs fs))"
proof (cases "sent (handler env req (fresh cfg us bs fs))")
  case None
  from handler_outcome [of env req cfg us bs fs] have "listener (handler env req (fresh cfg us bs fs)) = None"
  proof
    assume "\<exists>sess. getServerSession env = Some sess \<and>
      upload env sess ((fresh cfg us bs fs)\<lparr>trace := [FindSetting ''forbidEditing'', GetServerSession]\<rparr>)
        = (None, handler env req (fresh cfg us bs fs))"
    then obtain sess where
      "upload env sess ((fresh cfg us bs fs)\<lparr>trace := [FindSetting ''forbidEditing'', GetServerSession]\<rparr>)
        = (None, handler env req (fresh cfg us bs fs))" by blast
    from upload_ok [OF this] None show ?thesis by simp
  qed simp
  then show ?thesis by (simp add: run_def fold_no_listener)
next
  case (Some r)
  then show ?thesis by (simp add: run_def fold_sent)
qed

lemma run_banners: "banners (run env req s) = banners (handler env req s)"
  by (simp add: run_def fold_banners)



lemma remaining_trace [simp]: "remaining e (s\<lparr>trace := t\<rparr>) = remaining e s"
  by (simp add: remaining_def split: option.splits)

lemma handler_200:
  assumes "response_status (handler env req (fresh cfg us bs fs)) = Some 200"
  shows "\<exists>sess. getServerSession env = Some sess \<and>
           banners (handler env req (fresh cfg us bs fs))
             = remaining (email sess) (fresh cfg us bs fs) @ [new_banner env sess] \<and>
           createId env \<notin> banner_id ` set (remaining (email sess) (fresh cfg us bs fs)) \<and>
           listener (handler env req (fresh cfg us bs fs)) = Some (upload_path (createId env)) \<and>
           sent (handler env req (fresh cfg us bs fs)) = Some (200, [], UrlBody (image_url (createId env))) \<and>
           (\<forall>cb. currentBanner (email sess) (fresh cfg us bs fs) = Some cb \<longrightarrow>
               Unlink (upload_path (banner_id cb)) \<in> set (trace (handler env req (fresh cfg us bs fs)))) \<and>
           size_read (handler env req (fresh cfg us bs fs)) = 0"
proof -
  from handler_outcome [of env req cfg us bs fs] assms
  obtain sess where s: "getServerSession env = Some sess"
    and u: "upload env sess ((fresh cfg us bs fs)\<lparr>trace := [FindSetting ''forbidEditing'', GetServerSession]\<rparr>)
        = (None, handler env req (fresh cfg us bs fs))"
    by blast
  from upload_ok [OF u] s show ?thesis by simp
qed

lemma handler_listening:
  assumes "listener (handler env req (fresh cfg us bs fs)) = Some f"
  shows "response_status (handler env req (fresh cfg us bs fs)) = Some 200"
proof -
  from handler_outcome [of env req cfg us bs fs] assms
  obtain sess where
    u: "upload env sess ((fresh cfg us bs fs)\<lparr>trace := [FindSetting ''forbidEditing'', GetServerSession]\<rparr>)
        = (None, handler env req (fresh cfg us bs fs))"
    by auto
  from upload_ok [OF u] show ?thesis by (simp add: response_status_def)
qed

lemma handler_not_destroyed: "\<not> destroyed (handler env req (fresh cfg us bs fs))"
proof -
  from handler_outcome [of env req cfg us bs fs] show ?thesis
  proof
    assume "\<exists>sess. getServerSession env = Some sess \<and>
      upload env sess ((fresh cfg us bs fs)\<lparr>trace := [FindSetting ''forbidEditing'', GetServerSession]\<rparr>)
        = (None, handler env req (fresh cfg us bs fs))"
    then obtain sess where
      "upload env sess ((fresh cfg us bs fs)\<lparr>trace := [FindSetting ''forbidEditing'', GetServerSession]\<rparr>)
        = (None, handler env req (fresh cfg us bs fs))" by blast
    from upload_ok [OF this] show ?thesis by simp
  qed simp
qed

lemma filter_id_fresh:
  assumes "i \<notin> banner_id ` set xs" and "banner_id b = i"
  shows "filter (\<lambda>x. banner_id x = i) (xs @ [b]) = [b]"
proof -
  from assms(1) have "filter (\<lambda>x. banner_id x = i) xs = []"
    by (auto simp: filter_empty_conv)
  with assms(2) show ?thesis by simp
qed

subsection \<open>Exceptions\<close>

lemma handler_try_error:
  assumes "handler_try env req (fresh cfg us bs fs) = (Some e, s')"
  shows "sent s' = None \<and> listener s' = None \<and> headers s' = [] \<and> uncaught s' = []"
  using assms
  by (auto simp: handler_try_def res_defs Let_def split: option.splits if_splits
      dest!: upload_error_fresh)

text \<open>
  C9. The \<^verbatim>\<open>try\<close> block is entered by every \<^verbatim>\<open>POST\<close> request. Whatever exception one
  of its statements throws before the function returns (the lookup of the setting, the
  Session Resolver, the banner lookup, the deletion, the creation, the making of the
  directory, the sending of a response), the handler catches it, writes it to the console
  and answers 500 with the body \<^verbatim>\<open>{ e: 'Internal Server Error' }\<close>, in which nothing of
  the exception appears; nothing is left uncaught.
\<close>

theorem internal_error:
  assumes "req_method req = ''POST''"
    and "handler_try env req (fresh cfg us bs fs) = (Some e, s')"
  shows "sent (run env req (fresh cfg us bs fs)) = Some (500, [], ErrorBody ''Internal Server Error'') \<and>
         console (run env req (fresh cfg us bs fs)) = console s' @ [Caught e] \<and>
         uncaught (run env req (fresh cfg us bs fs)) = []"
proof -
  from handler_try_error [OF assms(2)]
  have s': "sent s' = None" "listener s' = None" "headers s' = []" "uncaught s' = []"
    by simp_all
  have h: "handler env req (fresh cfg us bs fs) =
           s'\<lparr>console := console s' @ [Caught e], statusCode := 500,
              sent := Some (500, [], ErrorBody ''Internal Server Error'')\<rparr>"
    using assms s' by (simp add: handler_def res_defs)
  have "listener (handler env req (fresh cfg us bs fs)) = None"
    unfolding h using s' by simp
  then have "run env req (fresh cfg us bs fs) = handler env req (fresh cfg us bs fs)"
    by (simp add: run_def fold_no_listener)
  then show ?thesis
    unfolding h using s' by simp
qed

theorem internal_error_witness:
  "req_method (post None [[1, 2, 3]]) = ''POST'' \<and>
   handler_try env_db_down (post None [[1, 2, 3]]) (fresh Map.empty users1 [banner1] files1) =
     (Some (Failure ''Can not reach database server at db:5432''),
      (fresh Map.empty users1 [banner1] files1)
        \<lparr>trace := [FindSetting ''forbidEditing'', GetServerSession, FindBanner ''ada@example.org'']\<rparr>) \<and>
   sent (run env_db_down (post None [[1, 2, 3]]) (fresh Map.empty users1 [banner1] files1)) =
     Some (500, [], ErrorBody ''Internal Server Error'') \<and>
   console (run env_db_down (post None [[1, 2, 3]]) (fresh Map.empty users1 [banner1] files1)) =
     [Caught (Failure ''Can not reach database server at db:5432'')]"
proof -
  have h1: "req_method (post None [[1, 2, 3]]) = ''POST''" by (simp add: post_def)
  have h2: "handler_try env_db_down (post None [[1, 2, 3]]) (fresh Map.empty users1 [banner1] files1) =
     (Some (Failure ''Can not reach database server at db:5432''),
      (fresh Map.empty users1 [banner1] files1)
        \<lparr>trace := [FindSetting ''forbidEditing'', GetServerSession, FindBanner ''ada@example.org'']\<rparr>)"
    by (simp add: handler_try_def upload_def remove_current_def res_defs Let_def data_defs
        too_large_def reportedSize_def)
  from internal_error [OF h1 h2] h1 h2 show ?thesis by simp
qed

text \<open>
  The \<^verbatim>\<open>'data'\<close> listener is written inside the \<^verbatim>\<open>try\<close> block and runs after it has
  been left. On the oversized request the guard's \<^verbatim>\<open>res.status(413).json(...)\<close> meets a
  response already sent and throws: nothing catches the exception, nothing is written to
  the console, and the answer stays 200.
\<close>

theorem internal_error_counterexample:
  "response_status (run env_ada oversized (fresh Map.empty users1 [banner1] files1)) = Some 200 \<and>
   uncaught (run env_ada oversized (fresh Map.empty users1 [banner1] files1))
     = [Failure ''ERR_HTTP_HEADERS_SENT''] \<and>
   console (run env_ada oversized (fresh Map.empty users1 [banner1] files1)) = []"
  by (simp add: response_status_def run_defs data_defs)

subsection \<open>The answer to a successful upload\<close>

text \<open>
  C6. For every upload answered 200, the URL in the body of the response is the
  \<^verbatim>\<open>url\<close> field of the record created for it, character for character:
  \<^verbatim>\<open>/api/res/images/\<close> followed by the generated identifier. That record is the only
  one with that identifier.
\<close>

theorem returned_url_is_stored:
  assumes "response_status (run env req (fresh cfg us bs fs)) = Some 200"
  shows "\<exists>sess. getServerSession env = Some sess \<and>
           sent (run env req (fresh cfg us bs fs)) = Some (200, [], UrlBody (url (new_banner env sess))) \<and>
           url (new_banner env sess) = ''/api/res/images/'' @ createId env \<and>
           filter (\<lambda>b. banner_id b = createId env) (banners (run env req (fresh cfg us bs fs)))
             = [new_banner env sess]"
proof -
  from assms have "response_status (handler env req (fresh cfg us bs fs)) = Some 200"
    by (simp add: response_status_def run_sent)
  from handler_200 [OF this] obtain sess where s: "getServerSession env = Some sess"
    and b: "banners (handler env req (fresh cfg us bs fs))
             = remaining (email sess) (fresh cfg us bs fs) @ [new_banner env sess]"
    and i: "createId env \<notin> banner_id ` set (remaining (email sess) (fresh cfg us bs fs))"
    and r: "sent (handler env req (fresh cfg us bs fs)) = Some (200, [], UrlBody (image_url (createId env)))"
    by blast
  have "banner_id (new_banner env sess) = createId env" by (simp add: new_banner_def)
  from filter_id_fresh [OF i this] s b r show ?thesis
    by (simp add: run_sent run_banners new_banner_def image_url_def)
qed

theorem returned_url_is_stored_witness:
  "response_status (run env_ada (post None [[1, 2, 3]]) (fresh Map.empty users1 [banner1] files1)) = Some 200 \<and>
   sent (run env_ada (post None [[1, 2, 3]]) (fresh Map.empty users1 [banner1] files1))
     = Some (200, [], UrlBody ''/api/res/images/c2'') \<and>
   filter (\<lambda>b. banner_id b = ''c2'')
     (banners (run env_ada (post None [[1, 2, 3]]) (fresh Map.empty users1 [banner1] files1)))
     = [\<lparr>banner_id = ''c2'', url = ''/api/res/images/c2'', projectId = ''p1''\<rparr>]"
proof -
  have h: "response_status (run env_ada (post None [[1, 2, 3]]) (fresh Map.empty users1 [banner1] files1)) = Some 200"
    by (simp add: response_status_def run_def stage_defs res_defs io_defs fresh_def Let_def data_defs
        too_large_def reportedSize_def maxSize_def on_data_def currentBanner_def new_banner_def
        image_url_def upload_path_def)
  from returned_url_is_stored [OF h] h show ?thesis
    by (simp add: env_ada_def ada_def new_banner_def)
qed

subsection \<open>When the guard fires\<close>

lemma guard_fires_iff:
  "destroyed (run env req (fresh cfg us bs fs)) \<longleftrightarrow>
     response_status (handler env req (fresh cfg us bs fs)) = Some 200 \<and>
     maxSize < sum_list (map length (chunks req))"
proof -
  let ?H = "handler env req (fresh cfg us bs fs)"
  from handler_outcome [of env req cfg us bs fs] show ?thesis
  proof
    assume a: "listener ?H = None \<and> response_status ?H \<noteq> Some 200 \<and> \<not> destroyed ?H"
    then have "run env req (fresh cfg us bs fs) = ?H" by (simp add: run_def fold_no_listener)
    with a show ?thesis by simp
  next
    assume "\<exists>sess. getServerSession env = Some sess \<and>
      upload env sess ((fresh cfg us bs fs)\<lparr>trace := [FindSetting ''forbidEditing'', GetServerSession]\<rparr>)
        = (None, ?H)"
    then obtain sess where
      u: "upload env sess ((fresh cfg us bs fs)\<lparr>trace := [FindSetting ''forbidEditing'', GetServerSession]\<rparr>)
        = (None, ?H)" by blast
    from upload_ok [OF u] have l: "listener ?H = Some (upload_path (createId env))"
      and r: "response_status ?H = Some 200"
      by (simp_all add: response_status_def)
    from upload_ok [OF u] have z: "size_read ?H = 0" by simp
    then have "size_read ?H \<le> maxSize" by simp
    from fold_guard [OF l handler_not_destroyed this, of env "chunks req"] z r
    show ?thesis by (simp add: run_def)
  qed
qed


subsection \<open>The orphaned record\<close>

text \<open>
  C10. The guard is the only place where the request is destroyed, and it fires exactly
  when the upload has started and the body counts more than 5,000,000 bytes
  (\<open>guard_fires_iff\<close>). If it fires, the record created before the streaming began is
  still in the table, the only one with its identifier; the deletion of its file was
  attempted, and the file is gone unless that deletion failed.
\<close>

theorem overflow_keeps_record:
  assumes "destroyed (run env req (fresh cfg us bs fs))"
  shows "(\<exists>sess. getServerSession env = Some sess \<and>
            filter (\<lambda>b. banner_id b = createId env) (banners (run env req (fresh cfg us bs fs)))
              = [new_banner env sess]) \<and>
         Unlink (upload_path (createId env)) \<in> set (trace (run env req (fresh cfg us bs fs))) \<and>
         (fault env (Unlink (upload_path (createId env))) = None \<longrightarrow>
            files (run env req (fresh cfg us bs fs)) (upload_path (createId env)) = None)"
proof -
  let ?H = "handler env req (fresh cfg us bs fs)"
  from assms have d: "destroyed (fold (on_data env) (chunks req) ?H)" by (simp add: run_def)
  from fold_fires [OF handler_not_destroyed d] obtain f where
    l: "listener ?H = Some f" and
    t: "Unlink f \<in> set (trace (run env req (fresh cfg us bs fs)))" and
    g: "fault env (Unlink f) = None \<longrightarrow> files (run env req (fresh cfg us bs fs)) f = None"
    by (auto simp: run_def)
  from handler_200 [OF handler_listening [OF l]] obtain sess where
    s: "getServerSession env = Some sess" and
    b: "banners ?H = remaining (email sess) (fresh cfg us bs fs) @ [new_banner env sess]" and
    i: "createId env \<notin> banner_id ` set (remaining (email sess) (fresh cfg us bs fs))" and
    l': "listener ?H = Some (upload_path (createId env))"
    by blast
  from l l' have f: "f = upload_path (createId env)" by simp
  have "banner_id (new_banner env sess) = createId env" by (simp add: new_banner_def)
  from filter_id_fresh [OF i this] b
  have "filter (\<lambda>b. banner_id b = createId env) (banners (run env req (fresh cfg us bs fs)))
          = [new_banner env sess]"
    by (simp add: run_banners)
  with s t g f show ?thesis by simp
qed

theorem overflow_keeps_record_witness:
  "destroyed (run env_ada oversized (fresh Map.empty users1 [banner1] files1)) \<and>
   filter (\<lambda>b. banner_id b = ''c2'')
     (banners (run env_ada oversized (fresh Map.empty users1 [banner1] files1)))
     = [\<lparr>banner_id = ''c2'', url = ''/api/res/images/c2'', projectId = ''p1''\<rparr>] \<and>
   Unlink ''./data/uploads/c2.jpg''
     \<in> set (trace (run env_ada oversized (fresh Map.empty users1 [banner1] files1))) \<and>
   fault env_ada (Unlink ''./data/uploads/c2.jpg'') = None \<and>
   files (run env_ada oversized (fresh Map.empty users1 [banner1] files1)) ''./data/uploads/c2.jpg''
     = None"
proof -
  have h: "destroyed (run env_ada oversized (fresh Map.empty users1 [banner1] files1))"
    by (simp add: run_def stage_defs res_defs io_defs fresh_def Let_def data_defs
        too_large_def reportedSize_def maxSize_def on_data_def currentBanner_def new_banner_def
        image_url_def upload_path_def)
  have g: "fault env_ada (Unlink ''./data/uploads/c2.jpg'') = None" by (simp add: env_ada_def)
  from overflow_keeps_record [OF h] h g show ?thesis
    by (simp add: env_ada_def ada_def new_banner_def image_url_def upload_path_def)
qed

subsection \<open>The answer to an oversized body\<close>

text \<open>
  The answer is sent when the handler returns, before the first chunk is delivered. When
  the guard fires later, the client has received 200 already, and the attempt to send
  413 throws.
\<close>

lemma overflow_answers_200:
  assumes "destroyed (run env req (fresh cfg us bs fs))"
  shows "sent (run env req (fresh cfg us bs fs)) = Some (200, [], UrlBody (image_url (createId env)))"
proof -
  from assms guard_fires_iff [of env req cfg us bs fs]
  have "response_status (handler env req (fresh cfg us bs fs)) = Some 200" by simp
  from handler_200 [OF this] show ?thesis by (auto simp: run_sent)
qed

text \<open>
  C1. The specification asks that a body of more than 5,000,000 bytes be answered 413,
  the partial file removed and the connection terminated, whatever content length was
  declared. The handler does the last two and misses the first. Here a \<^verbatim>\<open>POST\<close>
  request with a valid session and no declared content length streams 4,000,000 bytes,
  then 1,000,001. The guard fires on the second chunk: the request is destroyed, the pipe
  is removed, the partial file is deleted and the third chunk is never read. The response
  the client has received is 200 with the URL of the new image: the call that would send
  413 comes after the response has been sent, and throws.
\<close>

theorem overflow_answered_200:
  "content_length oversized = None \<and>
   sum_list (map length (chunks oversized)) = 5000004 \<and>
   run env_ada oversized (fresh Map.empty users1 [banner1] files1) =
     \<lparr>settings = Map.empty, users = users1,
      banners = [\<lparr>banner_id = ''c2'', url = ''/api/res/images/c2'', projectId = ''p1''\<rparr>],
      files = Map.empty,
      trace = [FindSetting ''forbidEditing'', GetServerSession, FindBanner ''ada@example.org'',
               DeleteBanner ''c1'', Unlink ''./data/uploads/c1.jpg'',
               CreateBanner \<lparr>banner_id = ''c2'', url = ''/api/res/images/c2'', projectId = ''p1''\<rparr>,
               Mkdir ''./data/uploads'', CreateWriteStream ''./data/uploads/c2.jpg'',
               Unlink ''./data/uploads/c2.jpg''],
      console = [], statusCode = 413, headers = [],
      sent = Some (200, [], UrlBody ''/api/res/images/c2''),
      listener = Some ''./data/uploads/c2.jpg'', size_read = 5000001,
      successful = True, piped = False, destroyed = True,
      uncaught = [Failure ''ERR_HTTP_HEADERS_SENT'']\<rparr>"
  by (simp add: run_def stage_defs res_defs io_defs fresh_def Let_def data_defs
      too_large_def reportedSize_def maxSize_def on_data_def currentBanner_def new_banner_def
      image_url_def upload_path_def fun_upd_twist)

subsection \<open>The banner of the caller's project\<close>








subsection \<open>Replacing a banner\<close>




subsection \<open>One banner per project\<close>






end
